theory Spec2Isabelle
  imports Complex_Main "HOL-Library.Log_Nat" "HOL-Library.Char_ord"
    "HOL-Library.List_Lexorder" "HOL-Library.Product_Lexorder"
begin

section \<open>Data model\<close>

text \<open>
  The application keeps two Firestore collections, \<open>customers\<close> and
  \<open>waterSupplyEntries\<close>. A stored \<open>number\<close> (an amount, a balance) is
  modelled as a rational: \<open>NaN\<close>, the infinities and the rounding of sums of
  doubles are outside the model of the balances. The charge calculation,
  whose result depends on the rounding, is modelled in double precision
  below. A \<open>Date\<close> or Firestore \<open>Timestamp\<close> is its milliseconds since the
  epoch, a document id a string, and a string the bytes of its UTF-8 form. Firestore documents are schemaless, and the code
  reads most fields defensively (\<open>??\<close>, \<open>||\<close>, \<open>== null\<close>), so every
  stored field is optional: \<open>None\<close> is a missing field.
\<close>

type_synonym docId = string
type_synonym millis = int

datatype error =
    ValidationError      \<comment> \<open>"Invalid ... data provided", thrown before any store access\<close>
  | InvalidRange         \<comment> \<open>"End date/time must be after start date/time."\<close>
  | InvalidAmount        \<comment> \<open>"Invalid customer ID or payment amount provided."\<close>
  | CustomerNotFound     \<comment> \<open>"Customer not found"\<close>
  | TransactionFailure   \<comment> \<open>the transaction was rejected by Firestore\<close>
  | NoDataToExport       \<comment> \<open>"No data to export for the selected filters."\<close>
  | UnknownRate          \<comment> \<open>"Charge rate configuration missing for crop type: ..."\<close>

text \<open>Interface \<open>Customer\<close> of \<open>customers.ts\<close>, without the id (the document key).\<close>

record customer_doc =
  name :: "string option"
  mobile :: "string option"
  village :: "string option"
  totalPaid :: "rat option"
  pendingAmount :: "rat option"
  createdAt :: "millis option"

text \<open>
  Interface \<open>WaterSupplyEntry\<close> of \<open>entries.ts\<close>, without the id. The same
  record serves as the \<open>Partial<...>\<close> update object of
  \<open>updateWaterSupplyEntry\<close>, where \<open>None\<close> is a key that is not given. The
  entry's own \<open>createdAt\<close> is named \<open>entryCreatedAt\<close> here, since record
  fields are global names.
\<close>

record entry_doc =
  customerId :: "docId option"
  customerName :: "string option"
  entryTimestamp :: "millis option"
  startTime :: "string option"
  endTime :: "string option"
  endDate :: "millis option"
  durationHours :: "rat option"
  cropType :: "string option"
  amount :: "rat option"
  isPaid :: "bool option"
  entryCreatedAt :: "millis option"

text \<open>A \<open>WaterSupplyEntry\<close> value in the application: \<open>{ id: doc.id, ...data }\<close>.\<close>

type_synonym WaterSupplyEntry = "docId \<times> entry_doc"

text \<open>Interface \<open>NewEntryData\<close>; its fields carry the prefix \<open>new_\<close>.\<close>

record NewEntryData =
  new_customerId :: docId
  new_startDateTime :: millis
  new_endDateTime :: millis
  new_startTime :: string
  new_endTime :: string
  new_cropType :: string
  new_amount :: rat
  new_durationHours :: rat
  new_isPaid :: bool

text \<open>Interface \<open>NewCustomerData\<close>.\<close>

record NewCustomerData =
  new_name :: string
  new_mobile :: string
  new_village :: string

text \<open>
  The database: each collection is a list of documents with their ids, in
  any order. A query that orders by a field orders the documents with equal
  values of the field by document id, as Firestore does (the implicit
  \<open>__name__\<close> ordering, in the direction of the last \<open>orderBy\<close>); ids
  are compared as byte strings.
\<close>

record store =
  customers :: "(docId \<times> customer_doc) list"
  waterSupplyEntries :: "(docId \<times> entry_doc) list"

definition doc_exists :: "docId \<Rightarrow> (docId \<times> 'd) list \<Rightarrow> bool" where
  "doc_exists k ds = (k \<in> set (map fst ds))"

definition upd_doc :: "docId \<Rightarrow> ('d \<Rightarrow> 'd) \<Rightarrow> (docId \<times> 'd) list \<Rightarrow> (docId \<times> 'd) list" where
  "upd_doc k f ds = map (\<lambda>(k', d). if k' = k then (k', f d) else (k', d)) ds"

definition del_doc :: "docId \<Rightarrow> (docId \<times> 'd) list \<Rightarrow> (docId \<times> 'd) list" where
  "del_doc k ds = filter (\<lambda>(k', d). k' \<noteq> k) ds"

definition set_doc :: "docId \<Rightarrow> 'd \<Rightarrow> (docId \<times> 'd) list \<Rightarrow> (docId \<times> 'd) list" where
  "set_doc k d ds = (if doc_exists k ds then upd_doc k (\<lambda>_. d) ds else ds @ [(k, d)])"

text \<open>JavaScript's \<open>x ?? 0\<close> and \<open>x || 0\<close> on an optional number.\<close>

definition nullish0 :: "rat option \<Rightarrow> rat" where
  "nullish0 x = (case x of None \<Rightarrow> 0 | Some v \<Rightarrow> v)"

definition falsy0 :: "rat option \<Rightarrow> rat" where
  "falsy0 x = (case x of None \<Rightarrow> 0 | Some v \<Rightarrow> if v = 0 then 0 else v)"

text \<open>Truthiness of an optional string: a missing or an empty string is falsy.\<close>

definition truthy_str :: "string option \<Rightarrow> bool" where
  "truthy_str x = (case x of None \<Rightarrow> False | Some v \<Rightarrow> v \<noteq> [])"

section \<open>Firestore transactions\<close>

text \<open>
  \<open>runTransaction\<close> hands the callback a transaction object. Its reads see the
  committed database, its writes are staged and applied together when the
  callback returns. Two rules of the Firestore client decide claims here:
  \<^item> \<open>transaction.get\<close> throws once a write has been staged ("Firestore
    transactions require all reads to be executed before all writes.");
  \<^item> \<open>transaction.update\<close> of a document that does not exist makes the commit
    fail; \<open>set\<close> and \<open>delete\<close> have no such precondition.
  A callback that throws, and a commit that fails, leave the database as it
  was.
\<close>

record txn =
  snapshot :: store
  staged :: store
  wrote :: bool
  rejected :: bool

definition tx_begin :: "store \<Rightarrow> txn" where
  "tx_begin db = \<lparr>snapshot = db, staged = db, wrote = False, rejected = False\<rparr>"

definition tx_get_customer :: "txn \<Rightarrow> docId \<Rightarrow> error + customer_doc option" where
  "tx_get_customer t k =
     (if wrote t then Inl TransactionFailure else Inr (map_of (customers (snapshot t)) k))"

definition tx_get_entry :: "txn \<Rightarrow> docId \<Rightarrow> error + entry_doc option" where
  "tx_get_entry t k =
     (if wrote t then Inl TransactionFailure
      else Inr (map_of (waterSupplyEntries (snapshot t)) k))"

definition tx_update_customer :: "txn \<Rightarrow> docId \<Rightarrow> (customer_doc \<Rightarrow> customer_doc) \<Rightarrow> txn" where
  "tx_update_customer t k f =
     t\<lparr>staged := (staged t)\<lparr>customers := upd_doc k f (customers (staged t))\<rparr>,
       wrote := True,
       rejected := (rejected t \<or> \<not> doc_exists k (customers (staged t)))\<rparr>"

definition tx_update_entry :: "txn \<Rightarrow> docId \<Rightarrow> (entry_doc \<Rightarrow> entry_doc) \<Rightarrow> txn" where
  "tx_update_entry t k f =
     t\<lparr>staged := (staged t)\<lparr>waterSupplyEntries := upd_doc k f (waterSupplyEntries (staged t))\<rparr>,
       wrote := True,
       rejected := (rejected t \<or> \<not> doc_exists k (waterSupplyEntries (staged t)))\<rparr>"

definition tx_set_entry :: "txn \<Rightarrow> docId \<Rightarrow> entry_doc \<Rightarrow> txn" where
  "tx_set_entry t k d =
     t\<lparr>staged := (staged t)\<lparr>waterSupplyEntries := set_doc k d (waterSupplyEntries (staged t))\<rparr>,
       wrote := True\<rparr>"

definition tx_delete_entry :: "txn \<Rightarrow> docId \<Rightarrow> txn" where
  "tx_delete_entry t k =
     t\<lparr>staged := (staged t)\<lparr>waterSupplyEntries := del_doc k (waterSupplyEntries (staged t))\<rparr>,
       wrote := True\<rparr>"

definition runTransaction :: "store \<Rightarrow> (txn \<Rightarrow> error + 'r \<times> txn) \<Rightarrow> error + 'r \<times> store" where
  "runTransaction db updateFunction =
     (case updateFunction (tx_begin db) of
        Inl e \<Rightarrow> Inl e
      | Inr (r, t) \<Rightarrow> if rejected t then Inl TransactionFailure else Inr (r, staged t))"

text \<open>The database after a call: unchanged when the call failed.\<close>

definition store_after :: "store \<Rightarrow> error + 'r \<times> store \<Rightarrow> store" where
  "store_after db res = (case res of Inl e \<Rightarrow> db | Inr (r, db') \<Rightarrow> db')"

section \<open>Customers (\<open>customers.ts\<close>)\<close>

text \<open>
  A parameter \<open>customerId\<close> of the source is written \<open>cid\<close>, since
  \<open>customerId\<close> is a field of the entries. The \<open>catch\<close> blocks of the
  source rethrow an error under a longer message; the model keeps its kind.
\<close>

definition ts_key :: "docId \<times> entry_doc \<Rightarrow> millis" where
  "ts_key p = (case entryTimestamp (snd p) of None \<Rightarrow> 0 | Some ts \<Rightarrow> ts)"

text \<open>The order of \<open>orderBy('entryTimestamp', _)\<close>: start time, then document id.\<close>

definition order_key :: "docId \<times> entry_doc \<Rightarrow> millis \<times> docId" where
  "order_key p = (ts_key p, fst p)"

text \<open>
  The query of \<open>recordPayment\<close>: \<open>where('customerId', '==', customerId)\<close>,
  \<open>where('isPaid', '==', false)\<close>, \<open>orderBy('entryTimestamp', 'asc')\<close>. An
  \<open>orderBy\<close> leaves out the documents that lack the field.
\<close>

definition unpaidEntriesQuery :: "store \<Rightarrow> docId \<Rightarrow> (docId \<times> entry_doc) list" where
  "unpaidEntriesQuery db cid =
     sort_key order_key
       (filter (\<lambda>(k, e). customerId e = Some cid \<and> isPaid e = Some False
                          \<and> entryTimestamp e \<noteq> None)
          (waterSupplyEntries db))"

text \<open>The loop of \<open>recordPayment\<close> over \<open>unpaidEntriesSnap.docs\<close>.\<close>

fun applyPayment :: "(docId \<times> entry_doc) list \<Rightarrow> rat \<Rightarrow> txn \<Rightarrow> txn" where
  "applyPayment [] remainingAmountToApply t = t"
| "applyPayment ((entryId, entryData) # docs) remainingAmountToApply t =
     (if remainingAmountToApply \<le> 0 then t
      else let entryAmount = nullish0 (amount entryData) in
        if entryAmount \<le> 0 then applyPayment docs remainingAmountToApply t
        else if remainingAmountToApply \<ge> entryAmount then
          applyPayment docs (remainingAmountToApply - entryAmount)
            (tx_update_entry t entryId (\<lambda>e. e\<lparr>isPaid := Some True\<rparr>))
        else t)"

definition recordPayment :: "store \<Rightarrow> docId \<Rightarrow> rat \<Rightarrow> error + unit \<times> store" where
  "recordPayment db cid paymentAmount =
     (if cid = [] \<or> paymentAmount \<le> 0 then Inl InvalidAmount
      else runTransaction db (\<lambda>transaction.
        case tx_get_customer transaction cid of
          Inl e \<Rightarrow> Inl e
        | Inr None \<Rightarrow> Inl CustomerNotFound
        | Inr (Some customer) \<Rightarrow>
            let currentTotalPaid = nullish0 (totalPaid customer);
                currentPendingAmount = nullish0 (pendingAmount customer);
                newTotalPaid = currentTotalPaid + paymentAmount;
                newPendingAmount = max 0 (currentPendingAmount - paymentAmount);
                transaction1 = tx_update_customer transaction cid
                  (\<lambda>c. c\<lparr>totalPaid := Some newTotalPaid,
                          pendingAmount := Some newPendingAmount\<rparr>);
                unpaidEntriesSnap = unpaidEntriesQuery db cid
            in Inr ((), applyPayment unpaidEntriesSnap paymentAmount transaction1)))"


text \<open>
  \<open>getCustomerSupplyHistory\<close>: the entries of one customer, newest first,
  without the documents that fail the completeness check.
\<close>

definition str_of :: "string option \<Rightarrow> string" where
  "str_of x = (case x of None \<Rightarrow> [] | Some v \<Rightarrow> v)"

definition str_or :: "string option \<Rightarrow> string \<Rightarrow> string" where
  "str_or x d = (if truthy_str x then str_of x else d)"

definition valid_entry :: "docId \<times> entry_doc \<Rightarrow> bool" where
  "valid_entry p =
     (case p of (k, data) \<Rightarrow>
        \<not> (k = [] \<or> \<not> truthy_str (customerId data) \<or> \<not> truthy_str (customerName data)
           \<or> entryTimestamp data = None \<or> endDate data = None
           \<or> \<not> truthy_str (startTime data) \<or> \<not> truthy_str (endTime data)
           \<or> durationHours data = None \<or> \<not> truthy_str (cropType data)
           \<or> amount data = None \<or> isPaid data = None))"

definition getCustomerSupplyHistory :: "store \<Rightarrow> docId \<Rightarrow> WaterSupplyEntry list" where
  "getCustomerSupplyHistory db cid =
     filter valid_entry
       (rev (sort_key order_key
          (filter (\<lambda>(k, e). customerId e = Some cid \<and> entryTimestamp e \<noteq> None)
             (waterSupplyEntries db))))"

text \<open>
  \<open>String.prototype.trim\<close> strips the white space and line terminator code
  points of ECMAScript from both ends: \<open>U+0009\<close> to \<open>U+000D\<close>, \<open>U+0020\<close>,
  \<open>U+00A0\<close>, \<open>U+1680\<close>, \<open>U+2000\<close> to \<open>U+200A\<close>, \<open>U+2028\<close>, \<open>U+2029\<close>,
  \<open>U+202F\<close>, \<open>U+205F\<close>, \<open>U+3000\<close> and \<open>U+FEFF\<close>, here in UTF-8.
\<close>

definition white_space :: "string list" where
  "white_space =
     map (\<lambda>c. [c]) [CHR 0x09, CHR 0x0A, CHR 0x0B, CHR 0x0C, CHR 0x0D, CHR 0x20]
     @ [[CHR 0xC2, CHR 0xA0], [CHR 0xE1, CHR 0x9A, CHR 0x80]]
     @ map (\<lambda>c. [CHR 0xE2, CHR 0x80, c])
         [CHR 0x80, CHR 0x81, CHR 0x82, CHR 0x83, CHR 0x84, CHR 0x85, CHR 0x86, CHR 0x87,
          CHR 0x88, CHR 0x89, CHR 0x8A, CHR 0xA8, CHR 0xA9, CHR 0xAF]
     @ [[CHR 0xE2, CHR 0x81, CHR 0x9F], [CHR 0xE3, CHR 0x80, CHR 0x80],
        [CHR 0xEF, CHR 0xBB, CHR 0xBF]]"

text \<open>The length of the white space code point at the head of a string, or 0.\<close>

definition ws_length :: "string list \<Rightarrow> string \<Rightarrow> nat" where
  "ws_length ws s =
     (case find (\<lambda>w. w \<noteq> [] \<and> take (length w) s = w) ws of
        None \<Rightarrow> 0
      | Some w \<Rightarrow> length w)"

function strip_start :: "string list \<Rightarrow> string \<Rightarrow> string" where
  "strip_start ws s =
     (if ws_length ws s = 0 then s else strip_start ws (drop (ws_length ws s) s))"
  by pat_completeness auto
termination
proof (relation "measure (\<lambda>(ws, s). length s)")
  show "wf (measure (\<lambda>(ws, s). length s))"
    by simp
next
  fix ws :: "string list" and s :: string
  assume "ws_length ws s \<noteq> 0"
  then obtain w where w: "w \<noteq> []" "take (length w) s = w" "ws_length ws s = length w"
    by (auto simp: ws_length_def find_Some_iff split: option.splits)
  from w(1,2) have "s \<noteq> []"
    by auto
  with w(1,3) show "((ws, drop (ws_length ws s) s), (ws, s)) \<in> measure (\<lambda>(ws, s). length s)"
    by simp
qed

declare strip_start.simps [simp del]

definition trim :: "string \<Rightarrow> string" where
  "trim s = rev (strip_start (map rev white_space) (rev (strip_start white_space s)))"

text \<open>
  \<open>addCustomer\<close>. The id that \<open>addDoc\<close> generates and the value of
  \<open>Timestamp.now()\<close> are arguments.
\<close>

definition addCustomer :: "docId \<Rightarrow> millis \<Rightarrow> store \<Rightarrow> NewCustomerData \<Rightarrow> error + docId \<times> store" where
  "addCustomer newId now db customerData =
     (if new_name customerData = [] \<or> new_mobile customerData = []
         \<or> new_village customerData = [] then Inl ValidationError
      else
        let newCustomerDoc =
              \<lparr>name = Some (trim (new_name customerData)),
               mobile = Some (trim (new_mobile customerData)),
               village = Some (trim (new_village customerData)),
               totalPaid = Some 0, pendingAmount = Some 0, createdAt = Some now\<rparr>
        in Inr (newId, db\<lparr>customers := set_doc newId newCustomerDoc (customers db)\<rparr>))"

text \<open>
  \<open>deleteCustomer\<close>. A write batch is the database with the deletions staged
  so far; \<open>batch.commit()\<close> makes it the database.
\<close>

definition batch_delete_customer :: "docId \<Rightarrow> store \<Rightarrow> store" where
  "batch_delete_customer k batch = batch\<lparr>customers := del_doc k (customers batch)\<rparr>"

definition batch_delete_entry :: "docId \<Rightarrow> store \<Rightarrow> store" where
  "batch_delete_entry k batch = batch\<lparr>waterSupplyEntries := del_doc k (waterSupplyEntries batch)\<rparr>"

definition deleteCustomer :: "store \<Rightarrow> docId \<Rightarrow> error + unit \<times> store" where
  "deleteCustomer db cid =
     (if cid = [] then Inl ValidationError
      else case map_of (customers db) cid of
        None \<Rightarrow> Inr ((), db)
      | Some customerSnap \<Rightarrow>
          let batch = batch_delete_customer cid db;
              entriesSnapshot = filter (\<lambda>(k, e). customerId e = Some cid) (waterSupplyEntries db);
              batch = fold (\<lambda>doc. batch_delete_entry (fst doc)) entriesSnapshot batch
          in Inr ((), batch))"

section \<open>Entries (\<open>entries.ts\<close>)\<close>

text \<open>
  \<open>addWaterSupplyEntry\<close>. The \<open>Date\<close> fields of the argument are objects and
  the number fields are numbers, so of the first check only the two string
  fields can fail. \<open>formatHHmm\<close> is \<open>format(_, "HH:mm")\<close> of date-fns,
  \<open>newEntryRef\<close> the id of \<open>doc(entryCollection)\<close>, \<open>now\<close> the value of
  \<open>Timestamp.now()\<close>.
\<close>

definition addWaterSupplyEntry ::
  "(millis \<Rightarrow> string) \<Rightarrow> docId \<Rightarrow> millis \<Rightarrow> store \<Rightarrow> NewEntryData \<Rightarrow> error + docId \<times> store" where
  "addWaterSupplyEntry formatHHmm newEntryRef now db entryData =
     (if new_customerId entryData = [] \<or> new_cropType entryData = [] then Inl ValidationError
      else if new_endDateTime entryData \<le> new_startDateTime entryData then Inl InvalidRange
      else runTransaction db (\<lambda>transaction.
        case tx_get_customer transaction (new_customerId entryData) of
          Inl e \<Rightarrow> Inl e
        | Inr None \<Rightarrow> Inl CustomerNotFound
        | Inr (Some customerData) \<Rightarrow>
            let currentPendingAmount = falsy0 (pendingAmount customerData);
                customerName' = str_or (name customerData) ''Unknown Customer'';
                newPendingAmount =
                  (if new_isPaid entryData then currentPendingAmount
                   else currentPendingAmount + new_amount entryData);
                transaction1 = tx_update_customer transaction (new_customerId entryData)
                  (\<lambda>c. c\<lparr>pendingAmount := Some newPendingAmount\<rparr>);
                newEntryDocData =
                  \<lparr>customerId = Some (new_customerId entryData),
                   customerName = Some customerName',
                   entryTimestamp = Some (new_startDateTime entryData),
                   startTime = Some (formatHHmm (new_startDateTime entryData)),
                   endTime = Some (formatHHmm (new_endDateTime entryData)),
                   endDate = Some (new_endDateTime entryData),
                   durationHours = Some (new_durationHours entryData),
                   cropType = Some (new_cropType entryData),
                   amount = Some (new_amount entryData),
                   isPaid = Some (new_isPaid entryData),
                   entryCreatedAt = Some now\<rparr>;
                transaction2 = tx_set_entry transaction1 newEntryRef newEntryDocData
            in Inr (newEntryRef, transaction2)))"

text \<open>\<open>updateWaterSupplyEntry\<close>.\<close>

definition patch_empty :: "entry_doc \<Rightarrow> bool" where
  "patch_empty u =
     (customerId u = None \<and> customerName u = None \<and> entryTimestamp u = None
      \<and> startTime u = None \<and> endTime u = None \<and> endDate u = None
      \<and> durationHours u = None \<and> cropType u = None \<and> amount u = None
      \<and> isPaid u = None \<and> entryCreatedAt u = None)"

definition orElse :: "'a option \<Rightarrow> 'a option \<Rightarrow> 'a option" where
  "orElse x y = (case x of None \<Rightarrow> y | Some v \<Rightarrow> Some v)"

definition apply_patch :: "entry_doc \<Rightarrow> entry_doc \<Rightarrow> entry_doc" where
  "apply_patch u e =
     \<lparr>customerId = orElse (customerId u) (customerId e),
      customerName = orElse (customerName u) (customerName e),
      entryTimestamp = orElse (entryTimestamp u) (entryTimestamp e),
      startTime = orElse (startTime u) (startTime e),
      endTime = orElse (endTime u) (endTime e),
      endDate = orElse (endDate u) (endDate e),
      durationHours = orElse (durationHours u) (durationHours e),
      cropType = orElse (cropType u) (cropType e),
      amount = orElse (amount u) (amount e),
      isPaid = orElse (isPaid u) (isPaid e),
      entryCreatedAt = orElse (entryCreatedAt u) (entryCreatedAt e)\<rparr>"

definition truthy_bool :: "bool option \<Rightarrow> bool" where
  "truthy_bool x = (x = Some True)"

text \<open>The \<open>if\<close>/\<open>else if\<close> chain that sets \<open>pendingAmountAdjustment\<close> (initially 0).\<close>

definition pendingAmountAdjustment :: "rat \<Rightarrow> bool \<Rightarrow> rat \<Rightarrow> bool \<Rightarrow> rat" where
  "pendingAmountAdjustment oldAmount oldIsPaid newAmount newIsPaid =
     (if oldIsPaid \<and> newIsPaid then 0
      else if \<not> oldIsPaid \<and> \<not> newIsPaid then newAmount - oldAmount
      else if oldIsPaid \<and> \<not> newIsPaid then newAmount
      else if \<not> oldIsPaid \<and> newIsPaid then - oldAmount
      else 0)"

definition updateWaterSupplyEntry ::
  "store \<Rightarrow> docId \<Rightarrow> entry_doc \<Rightarrow> WaterSupplyEntry \<Rightarrow> error + unit \<times> store" where
  "updateWaterSupplyEntry db entryId updateData oldEntryData =
     (if entryId = [] \<or> patch_empty updateData then Inl ValidationError
      else if \<not> truthy_str (customerId (snd oldEntryData)) then Inl ValidationError
      else
        let cid = str_of (customerId (snd oldEntryData)) in
        runTransaction db (\<lambda>transaction.
          case tx_get_customer transaction cid of
            Inl e \<Rightarrow> Inl e
          | Inr None \<Rightarrow> Inl CustomerNotFound
          | Inr (Some customerData) \<Rightarrow>
              let currentPendingAmount = falsy0 (pendingAmount customerData);
                  oldAmount = nullish0 (amount (snd oldEntryData));
                  newAmount = nullish0 (orElse (amount updateData) (Some oldAmount));
                  oldIsPaid = isPaid (snd oldEntryData);
                  newIsPaid = orElse (isPaid updateData) oldIsPaid;
                  adjustment = pendingAmountAdjustment oldAmount (truthy_bool oldIsPaid)
                                 newAmount (truthy_bool newIsPaid);
                  transaction1 = tx_update_entry transaction entryId (apply_patch updateData)
              in if adjustment \<noteq> 0 then
                   let newPendingAmount = max 0 (currentPendingAmount + adjustment)
                   in Inr ((), tx_update_customer transaction1 cid
                                 (\<lambda>c. c\<lparr>pendingAmount := Some newPendingAmount\<rparr>))
                 else Inr ((), transaction1)))"

text \<open>
  \<open>deleteWaterSupplyEntry\<close>. The customer is read with \<open>transaction.get\<close>
  after \<open>transaction.delete(entryRef)\<close> has been staged.
\<close>

definition deleteWaterSupplyEntry :: "store \<Rightarrow> WaterSupplyEntry \<Rightarrow> error + unit \<times> store" where
  "deleteWaterSupplyEntry db entryToDelete =
     (if fst entryToDelete = [] \<or> \<not> truthy_str (customerId (snd entryToDelete))
      then Inl ValidationError
      else
        let cid = str_of (customerId (snd entryToDelete)) in
        runTransaction db (\<lambda>transaction.
          let isPaid0 = isPaid (snd entryToDelete);
              entryAmount0 = nullish0 (amount (snd entryToDelete))
          in case tx_get_entry transaction (fst entryToDelete) of
            Inl e \<Rightarrow> Inl e
          | Inr None \<Rightarrow> Inr ((), transaction)
          | Inr (Some entryDataFromDB) \<Rightarrow>
              let isPaid1 = orElse (isPaid entryDataFromDB) isPaid0;
                  entryAmount = nullish0 (orElse (amount entryDataFromDB) (Some entryAmount0));
                  transaction1 = tx_delete_entry transaction (fst entryToDelete)
              in if \<not> truthy_bool isPaid1 then
                   (case tx_get_customer transaction1 cid of
                      Inl e \<Rightarrow> Inl e
                    | Inr (Some customerData) \<Rightarrow>
                        let currentPendingAmount = falsy0 (pendingAmount customerData);
                            newPendingAmount = max 0 (currentPendingAmount - entryAmount)
                        in Inr ((), tx_update_customer transaction1 cid
                                      (\<lambda>c. c\<lparr>pendingAmount := Some newPendingAmount\<rparr>))
                    | Inr None \<Rightarrow> Inr ((), transaction1))
                 else Inr ((), transaction1)))"


section \<open>Double precision\<close>

text \<open>
  The arithmetic of \<open>calculateCharge\<close> is that of IEEE 754 doubles: each
  operation returns the double nearest to the exact result, a tie going to
  the even significand. A finite double is modelled as its rational value,
  and \<open>fl\<close> rounds a rational to 53 significant bits. Overflow and subnormal
  numbers are left out: the time values of valid dates and the rates keep
  every intermediate result far from both.
\<close>

definition pow2 :: "int \<Rightarrow> rat" where
  "pow2 k = (if 0 \<le> k then 2 ^ nat k else 1 / 2 ^ nat (- k))"

text \<open>The exponent of a positive rational: \<open>pow2 (ilog2 x) \<le> x < pow2 (ilog2 x + 1)\<close>.\<close>

definition ilog2 :: "rat \<Rightarrow> int" where
  "ilog2 x = (if 1 \<le> x then bitlen \<lfloor>x\<rfloor> - 1 else - bitlen (\<lceil>1 / x\<rceil> - 1))"

definition round_half_even :: "rat \<Rightarrow> int" where
  "round_half_even y =
     (let f = \<lfloor>y\<rfloor>; r = y - of_int f
      in if r < 1 / 2 then f else if 1 / 2 < r then f + 1 else if even f then f else f + 1)"

definition fl :: "rat \<Rightarrow> rat" where
  "fl x = (if x = 0 then 0
           else let q = pow2 (ilog2 \<bar>x\<bar> - 52) in of_int (round_half_even (x / q)) * q)"

text \<open>A \<open>number\<close> that \<open>calculateCharge\<close> returns: a finite double or \<open>NaN\<close>.\<close>

datatype number = Number rat | NaN

section \<open>Charge calculation (\<open>crop-charge.ts\<close>, \<open>calculateCharge\<close>)\<close>

text \<open>
  \<open>cropChargeRates\<close> is an object literal, and \<open>cropChargeRates[cropType]\<close> a
  property access: besides the six own keys it finds the properties that
  every object inherits from \<open>Object.prototype\<close>, whose values are functions
  or objects, not \<open>undefined\<close>.
\<close>

definition cropChargeRates :: "(string \<times> rat) list" where
  "cropChargeRates =
     [(''Rice'', 200), (''Wheat'', 150), (''Sugarcane'', 180), (''Cotton'', 160),
      (''Vegetables'', 140), (''Other'', 130)]"

definition object_prototype_keys :: "string list" where
  "object_prototype_keys =
     [''constructor'', ''__defineGetter__'', ''__defineSetter__'', ''hasOwnProperty'',
      ''__lookupGetter__'', ''__lookupSetter__'', ''isPrototypeOf'', ''propertyIsEnumerable'',
      ''toString'', ''valueOf'', ''__proto__'', ''toLocaleString'']"

datatype property = Rate rat | Inherited

definition get_property :: "string \<Rightarrow> property option" where
  "get_property key =
     (case map_of cropChargeRates key of
        Some r \<Rightarrow> Some (Rate r)
      | None \<Rightarrow> if key \<in> set object_prototype_keys then Some Inherited else None)"

definition getCropCharge :: "string \<Rightarrow> error + string \<times> property" where
  "getCropCharge crop =
     (let rate = orElse (get_property crop) (get_property ''Other'')
      in case rate of
           None \<Rightarrow> Inl UnknownRate
         | Some r \<Rightarrow> Inr (crop, r))"

text \<open>\<open>Math.round\<close> of a finite double: the nearest integer, a tie going up.\<close>

definition Math_round :: "rat \<Rightarrow> rat" where
  "Math_round x = of_int \<lfloor>x + 1 / 2\<rfloor>"

text \<open>
  A \<open>Date\<close> holds a time value of at most \<open>8.64e15\<close> milliseconds either
  side of the epoch, or is invalid; an integer out of this range stands for
  an invalid date, which \<open>calculateCharge\<close> refuses. The product of the
  duration and an inherited property is \<open>NaN\<close>, and so is its
  \<open>Math.round\<close>.
\<close>

definition valid_date :: "millis \<Rightarrow> bool" where
  "valid_date t = (\<bar>t\<bar> \<le> 8640000000000000)"

definition calculateCharge :: "millis \<Rightarrow> millis \<Rightarrow> string \<Rightarrow> error + number" where
  "calculateCharge startDateTime endDateTime crop =
     (if \<not> valid_date startDateTime \<or> \<not> valid_date endDateTime then Inl ValidationError
      else if endDateTime \<le> startDateTime then Inl InvalidRange
      else
        let durationMs = fl (of_int endDateTime - of_int startDateTime);
            durationHours' = fl (durationMs / (1000 * 60 * 60))
        in if durationHours' \<le> 0 then Inl InvalidRange
           else case getCropCharge crop of
                  Inl e \<Rightarrow> Inl e
                | Inr cropCharge \<Rightarrow>
                    (case snd cropCharge of
                       Rate r \<Rightarrow>
                         let calculatedAmount = fl (durationHours' * r)
                         in Inr (Number (Math_round calculatedAmount))
                     | Inherited \<Rightarrow> Inr NaN))"

section \<open>Dashboard aggregation (\<open>aggregateSumForPeriod\<close>)\<close>

text \<open>
  The helper works on any collection and any field name, so here a document
  is a list of named, dynamically typed fields.
\<close>

datatype fval = Num rat | Str string | Bool bool | Ts millis

type_synonym gdoc = "(string \<times> fval) list"

definition ts_at_least :: "millis \<Rightarrow> gdoc \<Rightarrow> bool" where
  "ts_at_least b d = (case map_of d ''entryTimestamp'' of Some (Ts t) \<Rightarrow> b \<le> t | _ \<Rightarrow> False)"

definition ts_at_most :: "millis \<Rightarrow> gdoc \<Rightarrow> bool" where
  "ts_at_most b d = (case map_of d ''entryTimestamp'' of Some (Ts t) \<Rightarrow> t \<le> b | _ \<Rightarrow> False)"

definition periodQuery :: "gdoc list \<Rightarrow> millis option \<Rightarrow> millis option \<Rightarrow> gdoc list" where
  "periodQuery coll startDate endDate' =
     (let q = coll;
          q = (case startDate of None \<Rightarrow> q | Some b \<Rightarrow> filter (ts_at_least b) q);
          q = (case endDate' of None \<Rightarrow> q | Some b \<Rightarrow> filter (ts_at_most b) q)
      in q)"

text \<open>The body of the \<open>forEach\<close> of the manual fallback.\<close>

definition add_field :: "string \<Rightarrow> gdoc \<Rightarrow> rat \<Rightarrow> rat" where
  "add_field fieldName d totalSum =
     (case map_of d fieldName of Some (Num v) \<Rightarrow> totalSum + v | _ \<Rightarrow> totalSum)"

text \<open>
  \<open>getAggregateFromServer\<close> and \<open>getDocs\<close> are arguments: each gets the
  documents the query selects and returns \<open>None\<close> when it throws. The
  parameter \<open>endDate\<close> is written \<open>endDate'\<close>.
\<close>

definition aggregateSumForPeriod ::
  "(gdoc list \<Rightarrow> string \<Rightarrow> rat option) \<Rightarrow> (gdoc list \<Rightarrow> gdoc list option)
     \<Rightarrow> gdoc list \<Rightarrow> string \<Rightarrow> millis option \<Rightarrow> millis option \<Rightarrow> rat" where
  "aggregateSumForPeriod getAggregateFromServer getDocs coll fieldName startDate endDate' =
     (let q = periodQuery coll startDate endDate'
      in case getAggregateFromServer q fieldName of
           Some total' \<Rightarrow> falsy0 (Some total')
         | None \<Rightarrow>
             (case getDocs q of
                Some docs \<Rightarrow> fold (add_field fieldName) docs 0
              | None \<Rightarrow> 0))"

text \<open>
  Firestore's \<open>sum\<close> aggregation as its documentation gives it: the sum of
  the numeric values of the field over the documents of the query, ignoring
  the documents where the field is missing or not a number.
\<close>

definition firestore_sum :: "gdoc list \<Rightarrow> string \<Rightarrow> rat option" where
  "firestore_sum q fieldName =
     Some (sum_list (concat (map (\<lambda>d. case map_of d fieldName of Some (Num v) \<Rightarrow> [v] | _ \<Rightarrow> []) q)))"

section \<open>Reports (\<open>reports.ts\<close>)\<close>

text \<open>The functions of date-fns and \<open>Number.prototype.toFixed\<close> are arguments.\<close>

record formatting =
  startOfDay :: "millis \<Rightarrow> millis"
  endOfDay :: "millis \<Rightarrow> millis"
  isSameDay :: "millis \<Rightarrow> millis \<Rightarrow> bool"
  format_date :: "millis \<Rightarrow> string"
  toFixed :: "nat \<Rightarrow> rat \<Rightarrow> string"

record ReportFilters =
  filter_customerId :: "string option"
  filter_startDate :: "millis option"
  filter_endDate :: "millis option"

definition getFilteredEntries :: "formatting \<Rightarrow> store \<Rightarrow> ReportFilters \<Rightarrow> WaterSupplyEntry list" where
  "getFilteredEntries fmt db filters =
     (let q = rev (sort_key order_key
                (filter (\<lambda>(k, e). entryTimestamp e \<noteq> None) (waterSupplyEntries db)));
          q = (if truthy_str (filter_customerId filters) \<and> filter_customerId filters \<noteq> Some ''all''
               then filter (\<lambda>(k, e). customerId e = filter_customerId filters) q else q);
          q = (case filter_startDate filters of
                 None \<Rightarrow> q
               | Some d \<Rightarrow> filter (\<lambda>p. startOfDay fmt d \<le> ts_key p) q);
          q = (case filter_endDate filters of
                 None \<Rightarrow> q
               | Some d \<Rightarrow> filter (\<lambda>p. ts_key p \<le> endOfDay fmt d) q)
      in filter valid_entry q)"

fun join :: "string \<Rightarrow> string list \<Rightarrow> string" where
  "join sep [] = []"
| "join sep [x] = x"
| "join sep (x # y # ys) = x @ sep @ join sep (y # ys)"

text \<open>\<open>.replace(/"/g, '""')\<close>\<close>

definition double_quotes :: "string \<Rightarrow> string" where
  "double_quotes s = concat (map (\<lambda>c. if c = CHR 0x22 then [CHR 0x22, CHR 0x22] else [c]) s)"

definition quoted :: "string \<Rightarrow> string" where
  "quoted s = [CHR 0x22] @ double_quotes s @ [CHR 0x22]"

definition csv_headers :: "string list" where
  "csv_headers = [''Start Date'', ''End Date'', ''Customer'', ''Start Time'', ''End Time'',
                  ''Duration (hrs)'', ''Crop Type'', ''Amount (INR)'', ''Status'']"

definition csv_row :: "formatting \<Rightarrow> WaterSupplyEntry \<Rightarrow> string list" where
  "csv_row fmt entry =
     (let e = snd entry;
          startDateStr = (case entryTimestamp e of Some ts \<Rightarrow> format_date fmt ts | None \<Rightarrow> ''N/A'');
          endDateStr = (case (endDate e, entryTimestamp e) of
                          (Some ed, Some ts) \<Rightarrow>
                            if \<not> isSameDay fmt ts ed then format_date fmt ed else startDateStr
                        | _ \<Rightarrow> startDateStr)
      in [startDateStr,
          endDateStr,
          quoted (str_or (customerName e) ''N/A''),
          str_or (startTime e) ''N/A'',
          str_or (endTime e) ''N/A'',
          (case durationHours e of Some h \<Rightarrow> toFixed fmt 2 h | None \<Rightarrow> ''N/A''),
          str_or (cropType e) ''N/A'',
          (case amount e of Some a \<Rightarrow> toFixed fmt 0 a | None \<Rightarrow> ''N/A''),
          (if truthy_bool (isPaid e) then ''Paid'' else ''Pending'')])"

text \<open>The byte-order mark \<open>U+FEFF\<close> as the blob holds it, in UTF-8.\<close>

definition BOM :: string where
  "BOM = [CHR 0xEF, CHR 0xBB, CHR 0xBF]"

definition exportEntries :: "formatting \<Rightarrow> store \<Rightarrow> ReportFilters \<Rightarrow> error + string" where
  "exportEntries fmt db filters =
     (let dataToExport = getFilteredEntries fmt db filters
      in if length dataToExport = 0 then Inl NoDataToExport
         else
           let rows = map (csv_row fmt) dataToExport;
               csvContent = join [CHR 0x0A] (join '','' csv_headers # map (join '','') rows)
           in Inr (BOM @ csvContent))"

section \<open>Sequences of operations\<close>

datatype operation =
    AddEntry docId millis NewEntryData
  | UpdateEntry docId entry_doc WaterSupplyEntry
  | DeleteEntry WaterSupplyEntry
  | RecordPayment docId rat

fun step :: "(millis \<Rightarrow> string) \<Rightarrow> store \<Rightarrow> operation \<Rightarrow> store" where
  "step f db (AddEntry newEntryRef now entryData) =
     store_after db (addWaterSupplyEntry f newEntryRef now db entryData)"
| "step f db (UpdateEntry entryId updateData oldEntryData) =
     store_after db (updateWaterSupplyEntry db entryId updateData oldEntryData)"
| "step f db (DeleteEntry entryToDelete) =
     store_after db (deleteWaterSupplyEntry db entryToDelete)"
| "step f db (RecordPayment cid paymentAmount) =
     store_after db (recordPayment db cid paymentAmount)"

definition run :: "(millis \<Rightarrow> string) \<Rightarrow> store \<Rightarrow> operation list \<Rightarrow> store" where
  "run f db ops = foldl (step f) db ops"

text \<open>Every record of customer \<open>cid\<close> has a pending amount that is not negative.\<close>

definition pending_nonneg :: "docId \<Rightarrow> store \<Rightarrow> bool" where
  "pending_nonneg cid db =
     list_all (\<lambda>(k, c). k = cid \<longrightarrow> 0 \<le> nullish0 (pendingAmount c)) (customers db)"

fun amount_nonneg :: "operation \<Rightarrow> bool" where
  "amount_nonneg (AddEntry newEntryRef now entryData) = (0 \<le> new_amount entryData)"
| "amount_nonneg _ = True"

section \<open>The rules as the specification words them\<close>

text \<open>
  The payment walk over the unpaid entries, oldest first: an entry with
  amount \<open>\<le> 0\<close> is skipped, an entry that the remainder covers is paid and
  its amount taken off the remainder, and the walk stops at the first entry
  that the remainder does not cover. The result is the ids of the entries
  marked paid.
\<close>

fun payment_walk :: "(docId \<times> entry_doc) list \<Rightarrow> rat \<Rightarrow> docId list" where
  "payment_walk [] remaining = []"
| "payment_walk ((k, e) # es) remaining =
     (if nullish0 (amount e) \<le> 0 then payment_walk es remaining
      else if remaining \<ge> nullish0 (amount e)
        then k # payment_walk es (remaining - nullish0 (amount e))
      else [])"

definition mark_paid :: "docId list \<Rightarrow> (docId \<times> entry_doc) list \<Rightarrow> (docId \<times> entry_doc) list" where
  "mark_paid ks es = map (\<lambda>(k, e). if k \<in> set ks then (k, e\<lparr>isPaid := Some True\<rparr>) else (k, e)) es"

text \<open>The four cases of the adjustment of an entry update.\<close>

fun adjustment_rule :: "rat \<times> bool \<Rightarrow> rat \<times> bool \<Rightarrow> rat" where
  "adjustment_rule (oldAmount, True) (newAmount, True) = 0"
| "adjustment_rule (oldAmount, False) (newAmount, False) = newAmount - oldAmount"
| "adjustment_rule (oldAmount, True) (newAmount, False) = newAmount"
| "adjustment_rule (oldAmount, False) (newAmount, True) = - oldAmount"




text \<open>An aggregation primitive that fails on every query.\<close>

definition aggregate_unavailable :: "gdoc list \<Rightarrow> string \<Rightarrow> rat option" where
  "aggregate_unavailable q fieldName = None"

text \<open>The header row of the export.\<close>

definition csv_header_line :: string where
  "csv_header_line =
     ''Start Date,End Date,Customer,Start Time,End Time,Duration (hrs),Crop Type,Amount (INR),Status''"

definition pending_of :: "store \<Rightarrow> docId \<Rightarrow> rat option" where
  "pending_of db cid = (case map_of (customers db) cid of None \<Rightarrow> None | Some c \<Rightarrow> pendingAmount c)"

section \<open>Example data\<close>

text \<open>
  One customer, \<open>c1\<close>, with sessions of two and a half hours for rice. The
  formatting functions of the examples work in UTC and print the day and the
  numbers of these sessions only.
\<close>

definition example_format :: "millis \<Rightarrow> string" where
  "example_format t = ''06:00''"

definition example_formatting :: formatting where
  "example_formatting =
     \<lparr>startOfDay = (\<lambda>t. t - t mod 86400000),
      endOfDay = (\<lambda>t. t - t mod 86400000 + 86399999),
      isSameDay = (\<lambda>a b. a div 86400000 = b div 86400000),
      format_date = (\<lambda>t. ''1970-01-01''),
      toFixed = (\<lambda>n x. if n = 0 then ''500'' else ''2.50'')\<rparr>"

definition all_entries :: ReportFilters where
  "all_entries = \<lparr>filter_customerId = Some ''all'', filter_startDate = None, filter_endDate = None\<rparr>"

definition empty_db :: store where
  "empty_db = \<lparr>customers = [], waterSupplyEntries = []\<rparr>"

definition asha :: NewCustomerData where
  "asha = \<lparr>new_name = ''Asha'', new_mobile = ''9876543210'', new_village = '' Rampur ''\<rparr>"

definition asha_doc :: "rat \<Rightarrow> rat \<Rightarrow> customer_doc" where
  "asha_doc paid pending =
     \<lparr>name = Some ''Asha'', mobile = Some ''9876543210'', village = Some ''Rampur'',
      totalPaid = Some paid, pendingAmount = Some pending, createdAt = Some 0\<rparr>"

definition fresh_db :: store where
  "fresh_db = store_after empty_db (addCustomer ''c1'' 0 empty_db asha)"

definition new_entry :: "string \<Rightarrow> millis \<Rightarrow> millis \<Rightarrow> rat \<Rightarrow> bool \<Rightarrow> NewEntryData" where
  "new_entry crop s e a paid =
     \<lparr>new_customerId = ''c1'', new_startDateTime = s, new_endDateTime = e,
      new_startTime = ''06:00'', new_endTime = ''08:30'', new_cropType = crop,
      new_amount = a, new_durationHours = of_int (e - s) / 3600000, new_isPaid = paid\<rparr>"

definition rice_entry :: "millis \<Rightarrow> rat \<Rightarrow> bool \<Rightarrow> entry_doc" where
  "rice_entry ts a paid =
     \<lparr>customerId = Some ''c1'', customerName = Some ''Asha'', entryTimestamp = Some ts,
      startTime = Some ''06:00'', endTime = Some ''06:00'', endDate = Some (ts + 9000000),
      durationHours = Some (5 / 2), cropType = Some ''Rice'', amount = Some a,
      isPaid = Some paid, entryCreatedAt = Some 0\<rparr>"

definition one_entry_db :: "rat \<Rightarrow> bool \<Rightarrow> store" where
  "one_entry_db a paid =
     store_after fresh_db
       (addWaterSupplyEntry example_format ''e1'' 0 fresh_db (new_entry ''Rice'' 0 9000000 a paid))"



definition no_patch :: entry_doc where
  "no_patch =
     \<lparr>customerId = None, customerName = None, entryTimestamp = None, startTime = None,
      endTime = None, endDate = None, durationHours = None, cropType = None, amount = None,
      isPaid = None, entryCreatedAt = None\<rparr>"

definition example_collection :: "gdoc list" where
  "example_collection =
     [[(''amount'', Num 300), (''entryTimestamp'', Ts 1000)],
      [(''amount'', Str ''n/a''), (''entryTimestamp'', Ts 2000)],
      [(''entryTimestamp'', Ts 3000)],
      [(''amount'', Num 500), (''entryTimestamp'', Ts 4000)],
      [(''amount'', Num 70), (''entryTimestamp'', Ts 9000)],
      [(''amount'', Num 11)]]"


section \<open>Basic facts\<close>

lemma nullish0_simps: "nullish0 None = 0" "nullish0 (Some v) = v"
  by (simp_all add: nullish0_def)

lemma falsy0_eq: "falsy0 x = nullish0 x"
  by (simp add: falsy0_def nullish0_def split: option.splits)


lemma doc_exists_map_of: "doc_exists k ds \<longleftrightarrow> map_of ds k \<noteq> None"
  by (simp add: doc_exists_def map_of_eq_None_iff)

lemma list_all_upd_doc:
  "list_all P ds \<Longrightarrow> (\<And>d. (k, d) \<in> set ds \<Longrightarrow> P (k, f d)) \<Longrightarrow> list_all P (upd_doc k f ds)"
  by (induction ds) (auto simp: upd_doc_def)

lemma trim_examples:
  "trim ''Asha'' = ''Asha''" "trim ''9876543210'' = ''9876543210''" "trim '' Rampur '' = ''Rampur''"
  by code_simp+

lemma fresh_db_eq: "fresh_db = \<lparr>customers = [(''c1'', asha_doc 0 0)], waterSupplyEntries = []\<rparr>"
  by (simp add: fresh_db_def empty_db_def asha_def asha_doc_def addCustomer_def store_after_def
        set_doc_def doc_exists_def trim_examples)

lemma one_entry_db_eq:
  "one_entry_db a paid =
     \<lparr>customers = [(''c1'', asha_doc 0 (if paid then 0 else a))],
      waterSupplyEntries = [(''e1'', rice_entry 0 a paid)]\<rparr>"
  by (simp add: one_entry_db_def fresh_db_eq new_entry_def addWaterSupplyEntry_def store_after_def
        runTransaction_def tx_get_customer_def tx_begin_def Let_def tx_update_customer_def
        tx_set_entry_def falsy0_def upd_doc_def set_doc_def doc_exists_def rice_entry_def
        asha_doc_def example_format_def str_or_def str_of_def truthy_str_def)

section \<open>Recording a payment\<close>

lemma payment_walk_nonpos: "r \<le> 0 \<Longrightarrow> payment_walk es r = []"
  by (induction es r rule: payment_walk.induct) auto

lemma mark_paid_Nil: "mark_paid [] es = es"
  by (induction es) (auto simp: mark_paid_def)

lemma mark_paid_upd:
  "mark_paid ks (upd_doc k (\<lambda>e. e\<lparr>isPaid := Some True\<rparr>) es) = mark_paid (k # ks) es"
  by (induction es) (auto simp: mark_paid_def upd_doc_def)

text \<open>
  The loop marks exactly the entries of the walk, and leaves the customers
  alone. The case \<open>remainingAmountToApply \<le> 0\<close>, where the loop breaks,
  is the one where the walk finds nothing more to pay.
\<close>

lemma applyPayment_staged:
  "waterSupplyEntries (staged (applyPayment docs r t))
     = mark_paid (payment_walk docs r) (waterSupplyEntries (staged t))
   \<and> customers (staged (applyPayment docs r t)) = customers (staged t)"
proof (induction docs r t rule: applyPayment.induct)
  case (1 r t)
  show ?case by (simp add: mark_paid_Nil)
next
  case (2 entryId entryData docs r t)
  show ?case
  proof (cases "r \<le> 0")
    case True
    then show ?thesis by (simp add: payment_walk_nonpos mark_paid_Nil)
  next
    case False
    with 2 show ?thesis
      by (auto simp: Let_def mark_paid_Nil mark_paid_upd tx_update_entry_def)
  qed
qed

lemma customers_applyPayment:
  "customers (staged (applyPayment docs r t)) = customers (staged t)"
  using applyPayment_staged by simp







section \<open>The pending amount\<close>

lemma pending_nonneg_lookup:
  "pending_nonneg k db \<Longrightarrow> map_of (customers db) k = Some c \<Longrightarrow> 0 \<le> nullish0 (pendingAmount c)"
  unfolding pending_nonneg_def by (auto simp: list_all_iff dest!: map_of_SomeD)

lemma recordPayment_inv:
  assumes "pending_nonneg k db"
  shows "pending_nonneg k (store_after db (recordPayment db cid p))"
proof (cases "cid = [] \<or> p \<le> 0")
  case True
  with assms show ?thesis by (simp add: recordPayment_def store_after_def)
next
  case False
  show ?thesis
  proof (cases "map_of (customers db) cid")
    case None
    with False assms show ?thesis
      by (simp add: recordPayment_def store_after_def runTransaction_def tx_get_customer_def
            tx_begin_def)
  next
    case (Some c)
    with False assms show ?thesis
      by (auto simp: recordPayment_def store_after_def runTransaction_def tx_get_customer_def
            tx_begin_def Let_def customers_applyPayment tx_update_customer_def
            pending_nonneg_def nullish0_simps
          intro!: list_all_upd_doc)
  qed
qed

lemma addWaterSupplyEntry_inv:
  assumes "pending_nonneg k db" and "0 \<le> new_amount d"
  shows "pending_nonneg k (store_after db (addWaterSupplyEntry f r n db d))"
proof (cases "map_of (customers db) (new_customerId d)")
  case None
  with assms show ?thesis
    by (simp add: addWaterSupplyEntry_def store_after_def runTransaction_def tx_get_customer_def
          tx_begin_def)
next
  case (Some c)
  with assms have "new_customerId d = k \<longrightarrow> 0 \<le> nullish0 (pendingAmount c)"
    by (auto simp: pending_nonneg_lookup)
  with Some assms show ?thesis
    by (auto simp: addWaterSupplyEntry_def store_after_def runTransaction_def tx_get_customer_def
          tx_begin_def Let_def tx_update_customer_def tx_set_entry_def falsy0_eq
          pending_nonneg_def nullish0_simps
        intro!: list_all_upd_doc)
qed

lemma updateWaterSupplyEntry_inv:
  assumes "pending_nonneg k db"
  shows "pending_nonneg k (store_after db (updateWaterSupplyEntry db i u old))"
proof (cases "map_of (customers db) (str_of (customerId (snd old)))")
  case None
  with assms show ?thesis
    by (simp add: updateWaterSupplyEntry_def store_after_def runTransaction_def
          tx_get_customer_def tx_begin_def)
next
  case (Some c)
  with assms show ?thesis
    by (auto simp: updateWaterSupplyEntry_def store_after_def runTransaction_def
          tx_get_customer_def tx_begin_def Let_def tx_update_customer_def tx_update_entry_def
          pending_nonneg_def nullish0_simps
        intro!: list_all_upd_doc)
qed

lemma deleteWaterSupplyEntry_inv:
  assumes "pending_nonneg k db"
  shows "pending_nonneg k (store_after db (deleteWaterSupplyEntry db e))"
proof (cases "map_of (waterSupplyEntries db) (fst e)")
  case None
  with assms show ?thesis
    by (simp add: deleteWaterSupplyEntry_def store_after_def runTransaction_def tx_get_entry_def
          tx_begin_def)
next
  case (Some d)
  with assms show ?thesis
    by (simp add: deleteWaterSupplyEntry_def store_after_def runTransaction_def tx_get_entry_def
          tx_get_customer_def tx_begin_def Let_def tx_delete_entry_def pending_nonneg_def)
qed

lemma step_inv:
  "pending_nonneg k db \<Longrightarrow> amount_nonneg op \<Longrightarrow> pending_nonneg k (step f db op)"
  by (cases op)
     (simp_all add: recordPayment_inv addWaterSupplyEntry_inv updateWaterSupplyEntry_inv
        deleteWaterSupplyEntry_inv)

lemma run_inv:
  "pending_nonneg k db \<Longrightarrow> \<forall>op \<in> set ops. amount_nonneg op \<Longrightarrow> pending_nonneg k (run f db ops)"
  unfolding run_def by (induction ops arbitrary: db) (auto simp: step_inv)

lemma addCustomer_inv:
  "addCustomer newId now db cd = Inr (cid, db0) \<Longrightarrow> pending_nonneg cid db0"
  by (force simp: addCustomer_def pending_nonneg_def set_doc_def upd_doc_def doc_exists_def
        Let_def nullish0_def list_all_iff
      split: if_splits)

text \<open>
  What does hold: when every added entry has an amount that is not negative
  (as every amount of \<open>calculateCharge\<close> is), the pending amount of a newly
  created customer is not negative after each operation of any sequence of
  add-entry, update-entry, delete-entry and record-payment operations,
  whatever the database held before and whatever the payments are.
\<close>

lemma pendingAmount_nonneg_created:
  assumes "addCustomer newId now db customerData = Inr (cid, db0)"
    and "\<forall>op \<in> set ops. amount_nonneg op"
  shows "pending_nonneg cid (run f db0 (take n ops))"
proof -
  from assms(2) have "\<forall>op \<in> set (take n ops). amount_nonneg op"
    by (auto dest: in_set_takeD)
  with addCustomer_inv [OF assms(1)] show ?thesis
    by (rule run_inv)
qed


section \<open>Adding an entry\<close>

lemma addWaterSupplyEntry_result:
  assumes "new_customerId d \<noteq> []" and "new_cropType d \<noteq> []"
    and "new_startDateTime d < new_endDateTime d"
    and "map_of (customers db) (new_customerId d) = Some c"
  shows "addWaterSupplyEntry f newEntryRef now db d =
     Inr (newEntryRef,
       \<lparr>customers =
          upd_doc (new_customerId d)
            (\<lambda>x. x\<lparr>pendingAmount :=
                     Some (if new_isPaid d then falsy0 (pendingAmount c)
                           else falsy0 (pendingAmount c) + new_amount d)\<rparr>)
            (customers db),
        waterSupplyEntries =
          set_doc newEntryRef
             \<lparr>customerId = Some (new_customerId d),
              customerName = Some (str_or (name c) ''Unknown Customer''),
              entryTimestamp = Some (new_startDateTime d),
              startTime = Some (f (new_startDateTime d)),
              endTime = Some (f (new_endDateTime d)),
              endDate = Some (new_endDateTime d),
              durationHours = Some (new_durationHours d),
              cropType = Some (new_cropType d),
              amount = Some (new_amount d),
              isPaid = Some (new_isPaid d),
              entryCreatedAt = Some now\<rparr> (waterSupplyEntries db)\<rparr>)"
proof -
  from assms(4) have "doc_exists (new_customerId d) (customers db)"
    by (simp add: doc_exists_map_of)
  with assms show ?thesis
    by (simp add: addWaterSupplyEntry_def runTransaction_def tx_get_customer_def tx_begin_def
          Let_def tx_update_customer_def tx_set_entry_def)
qed

text \<open>
  C3, as amended. \<open>addWaterSupplyEntry\<close> takes the paid flag from its input
  (\<open>entryData.isPaid ? currentPendingAmount : currentPendingAmount +
  entryData.amount\<close>). For every invocation that passes the checks of the
  input (customer id and crop type not empty, end after start) on an existing
  customer, with a new entry id, the customer update and the entry insert
  commit together and the id of the new entry is returned; the entry carries
  the paid flag of the input, and its amount is added to the pending amount
  exactly when that flag is false.
\<close>

theorem addWaterSupplyEntry_pending:
  assumes "new_customerId d \<noteq> []" and "new_cropType d \<noteq> []"
    and "new_startDateTime d < new_endDateTime d"
    and "map_of (customers db) (new_customerId d) = Some c"
    and "\<not> doc_exists newEntryRef (waterSupplyEntries db)"
  shows "addWaterSupplyEntry f newEntryRef now db d =
     Inr (newEntryRef,
       \<lparr>customers =
          upd_doc (new_customerId d)
            (\<lambda>x. x\<lparr>pendingAmount :=
                     Some (if new_isPaid d then falsy0 (pendingAmount c)
                           else falsy0 (pendingAmount c) + new_amount d)\<rparr>)
            (customers db),
        waterSupplyEntries =
          waterSupplyEntries db @
            [(newEntryRef,
              \<lparr>customerId = Some (new_customerId d),
               customerName = Some (str_or (name c) ''Unknown Customer''),
               entryTimestamp = Some (new_startDateTime d),
               startTime = Some (f (new_startDateTime d)),
               endTime = Some (f (new_endDateTime d)),
               endDate = Some (new_endDateTime d),
               durationHours = Some (new_durationHours d),
               cropType = Some (new_cropType d),
               amount = Some (new_amount d),
               isPaid = Some (new_isPaid d),
               entryCreatedAt = Some now\<rparr>)]\<rparr>)"
  using addWaterSupplyEntry_result [OF assms(1-4), of f newEntryRef now] assms(5)
  by (simp add: set_doc_def)

text \<open>An unpaid entry of 500 for the fresh customer: the pending amount goes from 0 to 500.\<close>

theorem addWaterSupplyEntry_pending_witness:
  "new_customerId (new_entry ''Rice'' 0 9000000 500 False) \<noteq> []
   \<and> new_cropType (new_entry ''Rice'' 0 9000000 500 False) \<noteq> []
   \<and> new_startDateTime (new_entry ''Rice'' 0 9000000 500 False)
        < new_endDateTime (new_entry ''Rice'' 0 9000000 500 False)
   \<and> map_of (customers fresh_db) (new_customerId (new_entry ''Rice'' 0 9000000 500 False))
        = Some (asha_doc 0 0)
   \<and> \<not> doc_exists ''e1'' (waterSupplyEntries fresh_db)
   \<and> addWaterSupplyEntry example_format ''e1'' 0 fresh_db (new_entry ''Rice'' 0 9000000 500 False)
        = Inr (''e1'', one_entry_db 500 False)
   \<and> pending_of fresh_db ''c1'' = Some 0
   \<and> pending_of (one_entry_db 500 False) ''c1'' = Some 500
   \<and> map_of (waterSupplyEntries (one_entry_db 500 False)) ''e1'' = Some (rice_entry 0 500 False)"
  using addWaterSupplyEntry_pending [of "new_entry ''Rice'' 0 9000000 500 False" fresh_db
      "asha_doc 0 0" "''e1''" example_format 0]
  by (simp add: one_entry_db_eq pending_of_def fresh_db_eq new_entry_def doc_exists_def
       falsy0_def upd_doc_def rice_entry_def asha_doc_def example_format_def str_or_def
       str_of_def truthy_str_def)

text \<open>
  The claim as stated fails: an input with \<open>isPaid = true\<close> creates the
  entry of 500 as paid and leaves the pending amount at 0.
\<close>

theorem addWaterSupplyEntry_paid_counterexample:
  "addWaterSupplyEntry example_format ''e1'' 0 fresh_db (new_entry ''Rice'' 0 9000000 500 True)
     = Inr (''e1'', one_entry_db 500 True)
   \<and> pending_of fresh_db ''c1'' = Some 0
   \<and> pending_of (one_entry_db 500 True) ''c1'' = Some 0
   \<and> map_of (waterSupplyEntries (one_entry_db 500 True)) ''e1'' = Some (rice_entry 0 500 True)
   \<and> amount (rice_entry 0 500 True) = Some 500
   \<and> isPaid (rice_entry 0 500 True) = Some True"
  by (simp add: one_entry_db_eq pending_of_def)
     (simp add: fresh_db_eq new_entry_def addWaterSupplyEntry_def
        runTransaction_def tx_get_customer_def tx_begin_def Let_def tx_update_customer_def
        tx_set_entry_def falsy0_def upd_doc_def set_doc_def doc_exists_def rice_entry_def
        asha_doc_def example_format_def str_or_def str_of_def truthy_str_def)

text \<open>
  C4, as amended. The check of the required fields comes before the check of
  the range. For every input with end \<open>\<le>\<close> start the call fails before any
  store access, with \<open>InvalidRange\<close> when the customer id and the crop type
  are not empty and with \<open>ValidationError\<close> when one of them is; no entry is
  created and no balance changes.
\<close>

theorem addWaterSupplyEntry_invalid_range:
  assumes "new_endDateTime d \<le> new_startDateTime d"
  shows "addWaterSupplyEntry f newEntryRef now db d =
           Inl (if new_customerId d = [] \<or> new_cropType d = [] then ValidationError
                else InvalidRange)
         \<and> store_after db (addWaterSupplyEntry f newEntryRef now db d) = db"
  using assms by (simp add: addWaterSupplyEntry_def store_after_def)

theorem addWaterSupplyEntry_invalid_range_witness:
  "new_endDateTime (new_entry ''Rice'' 9000000 0 500 False)
     \<le> new_startDateTime (new_entry ''Rice'' 9000000 0 500 False)
   \<and> addWaterSupplyEntry example_format ''e1'' 0 fresh_db (new_entry ''Rice'' 9000000 0 500 False)
       = Inl InvalidRange
   \<and> store_after fresh_db
       (addWaterSupplyEntry example_format ''e1'' 0 fresh_db (new_entry ''Rice'' 9000000 0 500 False))
       = fresh_db"
  using addWaterSupplyEntry_invalid_range
          [of "new_entry ''Rice'' 9000000 0 500 False" example_format "''e1''" 0 fresh_db]
  by (simp add: new_entry_def store_after_def)

text \<open>
  The claim as stated fails: with an empty crop type and end before start the
  error is the one of the first check, not \<open>InvalidRange\<close>.
\<close>

theorem addWaterSupplyEntry_invalid_range_counterexample:
  "new_endDateTime (new_entry [] 9000000 0 500 False)
     \<le> new_startDateTime (new_entry [] 9000000 0 500 False)
   \<and> addWaterSupplyEntry example_format ''e1'' 0 fresh_db (new_entry [] 9000000 0 500 False)
       = Inl ValidationError
   \<and> addWaterSupplyEntry example_format ''e1'' 0 fresh_db (new_entry [] 9000000 0 500 False)
       \<noteq> Inl InvalidRange"
  by (simp add: new_entry_def addWaterSupplyEntry_def)


section \<open>Deleting an entry\<close>

text \<open>An entry that is no longer stored: the call succeeds and changes nothing.\<close>

lemma deleteWaterSupplyEntry_missing:
  assumes "fst e \<noteq> []" and "truthy_str (customerId (snd e))"
    and "map_of (waterSupplyEntries db) (fst e) = None"
  shows "deleteWaterSupplyEntry db e = Inr ((), db)"
  using assms
  by (simp add: deleteWaterSupplyEntry_def runTransaction_def tx_get_entry_def tx_begin_def)

text \<open>A stored entry that is paid: it is deleted, and no customer is read or written.\<close>

lemma deleteWaterSupplyEntry_paid:
  assumes "fst e \<noteq> []" and "truthy_str (customerId (snd e))"
    and "map_of (waterSupplyEntries db) (fst e) = Some d"
    and "truthy_bool (orElse (isPaid d) (isPaid (snd e)))"
  shows "deleteWaterSupplyEntry db e =
           Inr ((), db\<lparr>waterSupplyEntries := del_doc (fst e) (waterSupplyEntries db)\<rparr>)"
  using assms
  by (simp add: deleteWaterSupplyEntry_def runTransaction_def tx_get_entry_def tx_begin_def
        Let_def tx_delete_entry_def)

text \<open>
  A stored entry that is not paid: the customer is read after the deletion
  has been staged, the read throws, and the transaction is abandoned,
  whether the customer exists or not.
\<close>

lemma deleteWaterSupplyEntry_unpaid:
  assumes "fst e \<noteq> []" and "truthy_str (customerId (snd e))"
    and "map_of (waterSupplyEntries db) (fst e) = Some d"
    and "\<not> truthy_bool (orElse (isPaid d) (isPaid (snd e)))"
  shows "deleteWaterSupplyEntry db e = Inl TransactionFailure"
  using assms
  by (simp add: deleteWaterSupplyEntry_def runTransaction_def tx_get_entry_def tx_begin_def
        Let_def tx_delete_entry_def tx_get_customer_def)

text \<open>
  C5. The claim asks that deleting a stored, unpaid entry takes its amount
  off the pending amount of its customer, clamped at 0. The code attempts
  this, but on the stored unpaid entry \<open>e1\<close> of 500 of customer \<open>c1\<close> the
  call fails: the entry stays, and the pending amount stays 500.
\<close>

theorem deleteWaterSupplyEntry_unpaid_fails:
  "map_of (waterSupplyEntries (one_entry_db 500 False)) ''e1'' = Some (rice_entry 0 500 False)
   \<and> isPaid (rice_entry 0 500 False) = Some False
   \<and> pending_of (one_entry_db 500 False) ''c1'' = Some 500
   \<and> deleteWaterSupplyEntry (one_entry_db 500 False) (''e1'', rice_entry 0 500 False)
       = Inl TransactionFailure
   \<and> store_after (one_entry_db 500 False)
        (deleteWaterSupplyEntry (one_entry_db 500 False) (''e1'', rice_entry 0 500 False))
       = one_entry_db 500 False"
proof -
  have m: "map_of (waterSupplyEntries (one_entry_db 500 False)) ''e1''
             = Some (rice_entry 0 500 False)"
    by (simp add: one_entry_db_eq)
  have f: "deleteWaterSupplyEntry (one_entry_db 500 False) (''e1'', rice_entry 0 500 False)
             = Inl TransactionFailure"
    by (rule deleteWaterSupplyEntry_unpaid [where d = "rice_entry 0 500 False"])
       (simp_all add: m, simp_all add: rice_entry_def truthy_str_def truthy_bool_def orElse_def)
  show ?thesis
    by (simp add: m f store_after_def)
       (simp add: rice_entry_def one_entry_db_eq pending_of_def asha_doc_def)
qed

section \<open>Deleting a customer\<close>

lemma batch_delete_entry_simps:
  "waterSupplyEntries (batch_delete_entry k b) = filter (\<lambda>p. fst p \<noteq> k) (waterSupplyEntries b)"
  "customers (batch_delete_entry k b) = customers b"
  by (simp_all add: batch_delete_entry_def del_doc_def case_prod_unfold)

lemma fold_batch_delete_entry:
  "waterSupplyEntries (fold (\<lambda>doc. batch_delete_entry (fst doc)) ds b)
     = filter (\<lambda>p. fst p \<notin> set (map fst ds)) (waterSupplyEntries b)
   \<and> customers (fold (\<lambda>doc. batch_delete_entry (fst doc)) ds b) = customers b"
proof (induction ds arbitrary: b)
  case Nil
  show ?case by simp
next
  case (Cons d ds)
  show ?case
    using Cons [of "batch_delete_entry (fst d) b"]
    by (auto simp: batch_delete_entry_simps intro: filter_cong)
qed

lemma history_empty:
  "\<forall>p \<in> set (waterSupplyEntries db). customerId (snd p) \<noteq> Some cid
     \<Longrightarrow> getCustomerSupplyHistory db cid = []"
  by (auto simp: getCustomerSupplyHistory_def filter_empty_conv)

text \<open>
  C6. For a customer id (not empty): when the customer is absent,
  \<open>deleteCustomer\<close> succeeds and changes nothing; when the customer exists,
  one batch removes the customer record and the documents of all entries
  whose \<open>customerId\<close> is that id, so that the customer is gone, no entry
  refers to the id, and \<open>getCustomerSupplyHistory\<close> for the id is empty.
\<close>

theorem deleteCustomer_cascade:
  assumes "cid \<noteq> []"
  shows "(map_of (customers db) cid = None \<longrightarrow> deleteCustomer db cid = Inr ((), db))
    \<and> (map_of (customers db) cid \<noteq> None \<longrightarrow>
         deleteCustomer db cid =
           Inr ((), \<lparr>customers = del_doc cid (customers db),
                     waterSupplyEntries =
                       filter (\<lambda>p. fst p \<notin> set (map fst
                                 (filter (\<lambda>(k, e). customerId e = Some cid) (waterSupplyEntries db))))
                         (waterSupplyEntries db)\<rparr>)
         \<and> \<not> doc_exists cid (customers (store_after db (deleteCustomer db cid)))
         \<and> (\<forall>p \<in> set (waterSupplyEntries (store_after db (deleteCustomer db cid))).
               customerId (snd p) \<noteq> Some cid)
         \<and> getCustomerSupplyHistory (store_after db (deleteCustomer db cid)) cid = [])"
proof (intro conjI impI)
  assume "map_of (customers db) cid = None"
  with assms show "deleteCustomer db cid = Inr ((), db)"
    by (simp add: deleteCustomer_def)
next
  assume ex: "map_of (customers db) cid \<noteq> None"
  let ?ds = "filter (\<lambda>(k, e). customerId e = Some cid) (waterSupplyEntries db)"
  let ?db' = "\<lparr>customers = del_doc cid (customers db),
               waterSupplyEntries =
                 filter (\<lambda>p. fst p \<notin> set (map fst ?ds)) (waterSupplyEntries db)\<rparr>"
  from ex assms show r: "deleteCustomer db cid = Inr ((), ?db')"
    using fold_batch_delete_entry [of ?ds "batch_delete_customer cid db"]
    by (auto simp: deleteCustomer_def Let_def batch_delete_customer_def)
  then have sa: "store_after db (deleteCustomer db cid) = ?db'"
    by (simp add: store_after_def)
  show "\<not> doc_exists cid (customers (store_after db (deleteCustomer db cid)))"
    by (auto simp: sa doc_exists_def del_doc_def)
  show none: "\<forall>p \<in> set (waterSupplyEntries (store_after db (deleteCustomer db cid))).
               customerId (snd p) \<noteq> Some cid"
    by (force simp: sa)
  then show "getCustomerSupplyHistory (store_after db (deleteCustomer db cid)) cid = []"
    by (rule history_empty)
qed

text \<open>
  Customer \<open>c1\<close> with one entry: the history has the entry before and is
  empty after the deletion, and the database is empty. Customer \<open>c2\<close> does
  not exist: nothing changes.
\<close>

theorem deleteCustomer_cascade_witness:
  "''c1'' \<noteq> [] \<and> ''c2'' \<noteq> []
   \<and> map_of (customers (one_entry_db 500 False)) ''c1'' \<noteq> None
   \<and> map_of (customers (one_entry_db 500 False)) ''c2'' = None
   \<and> getCustomerSupplyHistory (one_entry_db 500 False) ''c1'' = [(''e1'', rice_entry 0 500 False)]
   \<and> deleteCustomer (one_entry_db 500 False) ''c1'' = Inr ((), empty_db)
   \<and> getCustomerSupplyHistory
        (store_after (one_entry_db 500 False) (deleteCustomer (one_entry_db 500 False) ''c1''))
        ''c1'' = []
   \<and> deleteCustomer (one_entry_db 500 False) ''c2'' = Inr ((), one_entry_db 500 False)"
proof -
  have h: "getCustomerSupplyHistory (one_entry_db 500 False) ''c1''
             = [(''e1'', rice_entry 0 500 False)]"
    by (simp add: getCustomerSupplyHistory_def one_entry_db_eq valid_entry_def truthy_str_def
          rice_entry_def del: not_None_eq)
  have c1: "map_of (customers (one_entry_db 500 False)) ''c1'' \<noteq> None"
    by (simp add: one_entry_db_eq)
  have c2: "map_of (customers (one_entry_db 500 False)) ''c2'' = None"
    by (simp add: one_entry_db_eq)
  have d1: "deleteCustomer (one_entry_db 500 False) ''c1'' = Inr ((), empty_db)"
    by (simp add: deleteCustomer_def one_entry_db_eq empty_db_def Let_def rice_entry_def
          batch_delete_customer_def batch_delete_entry_def del_doc_def)
  have n1: "''c1'' \<noteq> []" and n2: "''c2'' \<noteq> []"
    by simp_all
  from deleteCustomer_cascade [OF n1, of "one_entry_db 500 False"] c1
  have e1: "getCustomerSupplyHistory
        (store_after (one_entry_db 500 False) (deleteCustomer (one_entry_db 500 False) ''c1''))
        ''c1'' = []"
    by blast
  from deleteCustomer_cascade [OF n2, of "one_entry_db 500 False"] c2
  have d2: "deleteCustomer (one_entry_db 500 False) ''c2'' = Inr ((), one_entry_db 500 False)"
    by blast
  from n1 n2 h c1 c2 d1 e1 d2 show ?thesis
    by blast
qed


section \<open>The charge\<close>

lemma pow2_powi: "pow2 k = 2 powi k"
  by (simp add: pow2_def power_int_def inverse_eq_divide power_one_over [symmetric]
      del: power_one_over)

lemma pow2_pos: "0 < pow2 k"
  by (simp add: pow2_powi)

lemma pow2_mono: "a \<le> b \<Longrightarrow> pow2 a \<le> pow2 b"
  by (simp add: pow2_powi power_int_increasing)

text \<open>\<open>ilog2\<close> is the exponent: the largest power of two that is not above \<open>x\<close>.\<close>

lemma ilog2_bounds:
  assumes "0 < x"
  shows "pow2 (ilog2 x) \<le> x \<and> x < pow2 (ilog2 x + 1)"
proof (cases "1 \<le> x")
  case True
  then have n: "0 < \<lfloor>x\<rfloor>" by simp
  from n have b: "1 \<le> bitlen \<lfloor>x\<rfloor>" by (auto simp: bitlen_alt_def)
  from bitlen_bounds [OF n] have "2 ^ nat (bitlen \<lfloor>x\<rfloor> - 1) \<le> \<lfloor>x\<rfloor>"
    and "\<lfloor>x\<rfloor> + 1 \<le> 2 ^ nat (bitlen \<lfloor>x\<rfloor>)" by simp_all
  then have "(of_int (2 ^ nat (bitlen \<lfloor>x\<rfloor> - 1)) :: rat) \<le> of_int \<lfloor>x\<rfloor>"
    and "(of_int (\<lfloor>x\<rfloor> + 1) :: rat) \<le> of_int (2 ^ nat (bitlen \<lfloor>x\<rfloor>))"
    by (simp_all only: of_int_le_iff)
  then have lo: "(2 :: rat) ^ nat (bitlen \<lfloor>x\<rfloor> - 1) \<le> of_int \<lfloor>x\<rfloor>"
    and hi: "of_int \<lfloor>x\<rfloor> + 1 \<le> (2 :: rat) ^ nat (bitlen \<lfloor>x\<rfloor>)" by simp_all
  have "of_int \<lfloor>x\<rfloor> \<le> x" and "x < of_int \<lfloor>x\<rfloor> + 1" by linarith+
  with lo hi have "(2 :: rat) ^ nat (bitlen \<lfloor>x\<rfloor> - 1) \<le> x" and "x < (2 :: rat) ^ nat (bitlen \<lfloor>x\<rfloor>)"
    by linarith+
  with True b show ?thesis by (simp add: ilog2_def pow2_def)
next
  case False
  let ?m = "\<lceil>1 / x\<rceil>"
  let ?b = "bitlen (?m - 1)"
  from False assms have y: "1 < 1 / x" by simp
  then have m: "0 < ?m - 1" by (simp add: less_ceiling_iff)
  then have b: "1 \<le> ?b" by (auto simp: bitlen_alt_def)
  from bitlen_bounds [OF m] have "?m \<le> 2 ^ nat ?b" and "2 ^ nat (?b - 1) \<le> ?m - 1" by simp_all
  then have "(of_int ?m :: rat) \<le> of_int (2 ^ nat ?b)"
    and "(of_int (2 ^ nat (?b - 1)) :: rat) \<le> of_int (?m - 1)"
    by (simp_all only: of_int_le_iff)
  then have hi: "(of_int ?m :: rat) \<le> 2 ^ nat ?b"
    and lo: "(2 :: rat) ^ nat (?b - 1) \<le> of_int ?m - 1" by simp_all
  have "1 / x \<le> of_int ?m" and "of_int ?m - 1 < 1 / x" by linarith+
  with hi lo have "1 / x \<le> 2 ^ nat ?b" and "(2 :: rat) ^ nat (?b - 1) < 1 / x" by linarith+
  with assms have "1 / 2 ^ nat ?b \<le> x" and "x < 1 / 2 ^ nat (?b - 1)"
    by (simp_all add: field_simps)
  moreover have "pow2 (- ?b + 1) = 1 / 2 ^ nat (?b - 1)"
    using b by (cases "?b = 1") (simp_all add: pow2_def)
  ultimately show ?thesis using False b by (simp add: ilog2_def pow2_def)
qed

lemma round_half_even_pos:
  assumes "1 \<le> y"
  shows "0 < round_half_even y"
proof -
  from assms have "1 \<le> \<lfloor>y\<rfloor>" by simp
  then show ?thesis by (auto simp: round_half_even_def Let_def)
qed

lemma fl_pos:
  assumes "0 < x"
  shows "0 < fl x"
proof -
  let ?q = "pow2 (ilog2 \<bar>x\<bar> - 52)"
  have "?q \<le> pow2 (ilog2 \<bar>x\<bar>)" by (rule pow2_mono) simp
  also have "\<dots> \<le> x" using ilog2_bounds [of "\<bar>x\<bar>"] assms by simp
  finally have "1 \<le> x / ?q" using pow2_pos [of "ilog2 \<bar>x\<bar> - 52"] by (simp add: field_simps)
  then have "0 < round_half_even (x / ?q)" by (rule round_half_even_pos)
  with pow2_pos [of "ilog2 \<bar>x\<bar> - 52"] assms show ?thesis
    by (simp add: fl_def Let_def)
qed

lemma own_key_not_inherited: "key \<in> set object_prototype_keys \<Longrightarrow> map_of cropChargeRates key = None"
  by (auto simp: object_prototype_keys_def cropChargeRates_def)


lemma getCropCharge_inherited:
  "crop \<in> set object_prototype_keys \<Longrightarrow> getCropCharge crop = Inr (crop, Inherited)"
  by (simp add: getCropCharge_def get_property_def orElse_def Let_def own_key_not_inherited)

lemma durationHours_pos:
  assumes "s < e"
  shows "0 < fl (fl (of_int e - of_int s) / (1000 * 60 * 60))"
proof -
  from assms have "0 < (of_int e - of_int s :: rat)" by simp
  then have "0 < fl (of_int e - of_int s)" by (rule fl_pos)
  then have "0 < fl (of_int e - of_int s) / (1000 * 60 * 60)" by simp
  then show ?thesis by (rule fl_pos)
qed

text \<open>
  A crop type that is the name of an inherited property finds that property
  instead of the default rate, and the charge is \<open>NaN\<close>.
\<close>

lemma calculateCharge_inherited:
  assumes "valid_date s" and "valid_date e" and "s < e" and "crop \<in> set object_prototype_keys"
  shows "calculateCharge s e crop = Inr NaN"
  using assms durationHours_pos [OF assms(3)]
  by (simp add: calculateCharge_def getCropCharge_inherited Let_def)




section \<open>The aggregation and its fallback\<close>

lemma fold_add_field:
  "fold (add_field f) docs acc =
     acc + sum_list (concat (map (\<lambda>d. case map_of d f of Some (Num v) \<Rightarrow> [v] | _ \<Rightarrow> []) docs))"
  by (induction docs arbitrary: acc)
     (auto simp: add_field_def split: option.splits fval.splits)

text \<open>
  C8. For every collection, field and period, \<open>aggregateSumForPeriod\<close>
  returns with a failing aggregation primitive (and a working \<open>getDocs\<close>),
  that is through its manual summation, what it returns with Firestore's
  \<open>sum\<close> aggregation over the same query.
\<close>

theorem aggregate_fallback_same:
  "aggregateSumForPeriod aggregate_unavailable Some coll fieldName startDate endDate'
     = aggregateSumForPeriod firestore_sum getDocs coll fieldName startDate endDate'"
  by (simp add: aggregateSumForPeriod_def aggregate_unavailable_def firestore_sum_def
        fold_add_field falsy0_def Let_def)

theorem aggregate_fallback_same_witness:
  "aggregateSumForPeriod aggregate_unavailable Some example_collection ''amount''
      (Some 1000) (Some 4000) = 800
   \<and> aggregateSumForPeriod firestore_sum Some example_collection ''amount''
      (Some 1000) (Some 4000) = 800"
  using aggregate_fallback_same [of example_collection "''amount''" "Some 1000" "Some 4000" Some]
  by (simp add: aggregateSumForPeriod_def aggregate_unavailable_def periodQuery_def
        example_collection_def ts_at_least_def ts_at_most_def add_field_def)

section \<open>The export\<close>

lemma join_Cons: "join sep (x # xs) = x @ concat (map (\<lambda>y. sep @ y) xs)"
  by (induction xs arbitrary: x) auto

lemma join_headers: "join '','' csv_headers = csv_header_line"
  by (simp add: csv_headers_def csv_header_line_def)

lemma csv_row_customer:
  assumes "valid_entry entry"
  shows "\<exists>n. customerName (snd entry) = Some n
           \<and> csv_row fmt entry ! 2 = [CHR 0x22] @ double_quotes n @ [CHR 0x22]"
  using assms
  by (cases entry)
     (auto simp: valid_entry_def csv_row_def Let_def quoted_def str_or_def str_of_def
        truthy_str_def split: option.splits)

lemma getFilteredEntries_example:
  "getFilteredEntries example_formatting (one_entry_db 500 False) all_entries
     = [(''e1'', rice_entry 0 500 False)]"
  by (simp add: getFilteredEntries_def one_entry_db_eq all_entries_def Let_def truthy_str_def
       valid_entry_def rice_entry_def del: not_None_eq)

text \<open>
  C9. \<open>exportEntries\<close> fails with \<open>NoDataToExport\<close> when the filtered
  entries are empty. Otherwise it returns the byte-order mark, the header
  row, and one line for each entry, whose third field is the customer name
  between double quotes (with the double quotes of the name doubled).
\<close>

theorem exportEntries_csv:
  "(getFilteredEntries fmt db filters = [] \<longrightarrow> exportEntries fmt db filters = Inl NoDataToExport)
   \<and> (getFilteredEntries fmt db filters \<noteq> [] \<longrightarrow>
        exportEntries fmt db filters =
          Inr ([CHR 0xEF, CHR 0xBB, CHR 0xBF]
                 @ ''Start Date,End Date,Customer,Start Time,End Time,Duration (hrs),Crop Type,Amount (INR),Status''
                 @ concat (map (\<lambda>entry. [CHR 0x0A] @ join '','' (csv_row fmt entry))
                             (getFilteredEntries fmt db filters)))
        \<and> (\<forall>entry \<in> set (getFilteredEntries fmt db filters).
              \<exists>n. customerName (snd entry) = Some n
                \<and> csv_row fmt entry ! 2 = [CHR 0x22] @ double_quotes n @ [CHR 0x22]))"
proof (intro conjI impI ballI)
  assume "getFilteredEntries fmt db filters = []"
  then show "exportEntries fmt db filters = Inl NoDataToExport"
    by (simp add: exportEntries_def)
next
  assume "getFilteredEntries fmt db filters \<noteq> []"
  then have "exportEntries fmt db filters =
          Inr (BOM @ csv_header_line
                 @ concat (map (\<lambda>entry. [CHR 0x0A] @ join '','' (csv_row fmt entry))
                             (getFilteredEntries fmt db filters)))"
    by (simp add: exportEntries_def Let_def join_Cons join_headers comp_def)
  then show "exportEntries fmt db filters =
          Inr ([CHR 0xEF, CHR 0xBB, CHR 0xBF]
                 @ ''Start Date,End Date,Customer,Start Time,End Time,Duration (hrs),Crop Type,Amount (INR),Status''
                 @ concat (map (\<lambda>entry. [CHR 0x0A] @ join '','' (csv_row fmt entry))
                             (getFilteredEntries fmt db filters)))"
    by (simp add: BOM_def csv_header_line_def)
next
  fix entry
  assume "entry \<in> set (getFilteredEntries fmt db filters)"
  then have "valid_entry entry"
    by (simp add: getFilteredEntries_def Let_def)
  then show "\<exists>n. customerName (snd entry) = Some n
                \<and> csv_row fmt entry ! 2 = [CHR 0x22] @ double_quotes n @ [CHR 0x22]"
    by (rule csv_row_customer)
qed

text \<open>No entry: no file. One entry: the mark, the header row and one line.\<close>

theorem exportEntries_csv_witness:
  "getFilteredEntries example_formatting fresh_db all_entries = []
   \<and> exportEntries example_formatting fresh_db all_entries = Inl NoDataToExport
   \<and> getFilteredEntries example_formatting (one_entry_db 500 False) all_entries \<noteq> []
   \<and> exportEntries example_formatting (one_entry_db 500 False) all_entries =
       Inr ([CHR 0xEF, CHR 0xBB, CHR 0xBF]
            @ ''Start Date,End Date,Customer,Start Time,End Time,Duration (hrs),Crop Type,Amount (INR),Status''
            @ [CHR 0x0A] @ ''1970-01-01,1970-01-01,'' @ [CHR 0x22] @ ''Asha'' @ [CHR 0x22]
            @ '',06:00,06:00,2.50,Rice,500,Pending'')"
  using exportEntries_csv [of example_formatting fresh_db all_entries]
        exportEntries_csv [of example_formatting "one_entry_db 500 False" all_entries]
  by (simp add: getFilteredEntries_example)
     (simp add: getFilteredEntries_def fresh_db_eq all_entries_def Let_def
        csv_row_def rice_entry_def example_formatting_def quoted_def double_quotes_def str_or_def
        str_of_def truthy_str_def truthy_bool_def)

section \<open>Updating an entry\<close>

lemma adjustment_rule_eq:
  "pendingAmountAdjustment a p b q = adjustment_rule (a, p) (b, q)"
  by (cases p; cases q) (simp_all add: pendingAmountAdjustment_def)

lemma newAmount_eq: "nullish0 (orElse x (Some (nullish0 y))) = nullish0 (orElse x y)"
  by (simp add: nullish0_def orElse_def split: option.splits)

text \<open>
  C10. For an update that passes the checks of its arguments, on a stored
  entry whose customer exists, the adjustment of the pending amount follows
  the four cases of old and new paid flag:
  0 (paid, paid), \<open>newAmount - oldAmount\<close> (unpaid, unpaid), \<open>newAmount\<close>
  (paid, unpaid), \<open>- oldAmount\<close> (unpaid, paid). When the adjustment is 0
  the customer is not written; otherwise its pending amount becomes
  \<open>max 0 (pendingAmount + adjustment)\<close>.
\<close>

theorem updateWaterSupplyEntry_adjustment:
  assumes "entryId \<noteq> []" and "\<not> patch_empty updateData"
    and "customerId (snd oldEntryData) = Some cid" and "cid \<noteq> []"
    and "map_of (customers db) cid = Some c"
    and "doc_exists entryId (waterSupplyEntries db)"
    and "adj = adjustment_rule
                 (nullish0 (amount (snd oldEntryData)), truthy_bool (isPaid (snd oldEntryData)))
                 (nullish0 (orElse (amount updateData) (amount (snd oldEntryData))),
                  truthy_bool (orElse (isPaid updateData) (isPaid (snd oldEntryData))))"
  shows "updateWaterSupplyEntry db entryId updateData oldEntryData =
     Inr ((),
       \<lparr>customers =
          (if adj = 0 then customers db
           else upd_doc cid
                  (\<lambda>x. x\<lparr>pendingAmount := Some (max 0 (falsy0 (pendingAmount c) + adj))\<rparr>)
                  (customers db)),
        waterSupplyEntries = upd_doc entryId (apply_patch updateData) (waterSupplyEntries db)\<rparr>)"
proof -
  from assms(5) have ex: "doc_exists cid (customers db)"
    by (simp add: doc_exists_map_of)
  from assms(3,4) have t: "truthy_str (customerId (snd oldEntryData))"
    and s: "str_of (customerId (snd oldEntryData)) = cid"
    by (simp_all add: truthy_str_def str_of_def)
  show ?thesis
    using assms(1,2,5,6) ex t
    by (simp add: updateWaterSupplyEntry_def s runTransaction_def tx_get_customer_def
          tx_begin_def Let_def tx_update_entry_def tx_update_customer_def adjustment_rule_eq
          newAmount_eq assms(7) [symmetric])
qed

text \<open>
  The unpaid entry of 500: raising its amount to 700 raises the pending
  amount to 700; marking it paid lowers the pending amount to 0; changing
  its crop type only does not write the customer.
\<close>

theorem updateWaterSupplyEntry_adjustment_witness:
  "''e1'' \<noteq> [] \<and> \<not> patch_empty (no_patch\<lparr>amount := Some 700\<rparr>)
   \<and> customerId (rice_entry 0 500 False) = Some ''c1'' \<and> ''c1'' \<noteq> []
   \<and> map_of (customers (one_entry_db 500 False)) ''c1'' = Some (asha_doc 0 500)
   \<and> doc_exists ''e1'' (waterSupplyEntries (one_entry_db 500 False))
   \<and> updateWaterSupplyEntry (one_entry_db 500 False) ''e1'' (no_patch\<lparr>amount := Some 700\<rparr>)
        (''e1'', rice_entry 0 500 False) = Inr ((), one_entry_db 700 False)
   \<and> updateWaterSupplyEntry (one_entry_db 500 False) ''e1'' (no_patch\<lparr>isPaid := Some True\<rparr>)
        (''e1'', rice_entry 0 500 False) = Inr ((), one_entry_db 500 True)
   \<and> updateWaterSupplyEntry (one_entry_db 500 False) ''e1'' (no_patch\<lparr>cropType := Some ''Rice''\<rparr>)
        (''e1'', rice_entry 0 500 False) = Inr ((), one_entry_db 500 False)"
  using updateWaterSupplyEntry_adjustment [of "''e1''" "no_patch\<lparr>amount := Some 700\<rparr>"
          "(''e1'', rice_entry 0 500 False)" "''c1''" "one_entry_db 500 False" "asha_doc 0 500" 200]
        updateWaterSupplyEntry_adjustment [of "''e1''" "no_patch\<lparr>isPaid := Some True\<rparr>"
          "(''e1'', rice_entry 0 500 False)" "''c1''" "one_entry_db 500 False" "asha_doc 0 500" "- 500"]
        updateWaterSupplyEntry_adjustment [of "''e1''" "no_patch\<lparr>cropType := Some ''Rice''\<rparr>"
          "(''e1'', rice_entry 0 500 False)" "''c1''" "one_entry_db 500 False" "asha_doc 0 500" 0]
  by (simp add: one_entry_db_eq patch_empty_def no_patch_def rice_entry_def asha_doc_def
        doc_exists_def nullish0_def orElse_def truthy_bool_def falsy0_def upd_doc_def
        apply_patch_def)

end
